theory Spec2Isabelle
  imports Complex_Main "HOL-Library.Sublist"
begin

section \<open>Fare calculation of the reservation model (Main/models.py)\<close>

text \<open>
  The only computation in \<^verbatim>\<open>Main/models.py\<close> is \<^verbatim>\<open>Reservation.calculate_fare\<close>.
  It uses Python strings (\<^verbatim>\<open>str.split\<close>, indexing), two dictionaries with
  \<^verbatim>\<open>dict.get\<close>, and Python's numeric tower: \<^verbatim>\<open>int\<close> values (the defaults \<^verbatim>\<open>0\<close>,
  the seat counts, the factor \<^verbatim>\<open>2\<close>) mixed with \<^verbatim>\<open>float\<close> values (the distances,
  \<^verbatim>\<open>17 / 4\<close>), and the builtin \<^verbatim>\<open>round(x, 2)\<close>. Each of these is modelled below as
  Python defines it, with every exception the operation can raise as an \<open>Inl\<close> result.
\<close>

subsection \<open>Python exceptions\<close>

datatype py_error = ValueError | IndexError | ZeroDivisionError | OverflowError

definition bind_err :: "py_error + 'a \<Rightarrow> ('a \<Rightarrow> py_error + 'b) \<Rightarrow> py_error + 'b" where
  "bind_err m f = (case m of Inl e \<Rightarrow> Inl e | Inr x \<Rightarrow> f x)"

subsection \<open>Python floats: IEEE 754 binary64\<close>

text \<open>
  A float is a finite binary64 number, given by its exact value, an infinity
  (\<open>Inf True\<close> is \<open>+inf\<close>) or a NaN. The two zeros \<^verbatim>\<open>0.0\<close> and \<^verbatim>\<open>-0.0\<close>, which
  Python's \<^verbatim>\<open>==\<close> does not tell apart, are both \<open>Finite 0\<close>.
\<close>

datatype float64 = Finite real | Inf bool | NaN

text \<open>Python's \<^verbatim>\<open>int.bit_length\<close> on a non-negative integer.\<close>

function bit_length :: "int \<Rightarrow> int" where
  "bit_length n = (if n \<le> 0 then 0 else 1 + bit_length (n div 2))"
  by pat_completeness auto
termination
  by (relation "measure nat") auto

declare bit_length.simps [simp del]

text \<open>
  \<open>ilog2 x\<close> is \<open>\<lfloor>log\<^sub>2 x\<rfloor>\<close> for \<open>x > 0\<close>: the exponent \<open>e\<close> with
  \<open>2\<^sup>e \<le> x < 2\<^sup>e\<^sup>+\<^sup>1\<close>.
\<close>

definition ilog2 :: "real \<Rightarrow> int" where
  "ilog2 x = (if 1 \<le> x then bit_length \<lfloor>x\<rfloor> - 1 else - bit_length (\<lceil>1 / x\<rceil> - 1))"

text \<open>Rounding to the nearest integer, ties to the even one.\<close>

definition round_half_even :: "real \<Rightarrow> int" where
  "round_half_even x =
     (let f = \<lfloor>x\<rfloor>; d = x - of_int f in
      if d < 1 / 2 then f
      else if 1 / 2 < d then f + 1
      else if even f then f else f + 1)"

text \<open>
  \<open>binary64 x\<close> is the float nearest to the real number \<open>x\<close> (round to nearest, ties to
  even): 53 significant bits, the exponent of the leading bit at least \<open>-1022\<close>
  (below that the numbers are subnormal, spaced \<open>2\<^sup>-\<^sup>1\<^sup>0\<^sup>7\<^sup>4\<close> apart), and an infinity
  when the rounded magnitude reaches \<open>2\<^sup>1\<^sup>0\<^sup>2\<^sup>4\<close>.
\<close>

definition binary64 :: "real \<Rightarrow> float64" where
  "binary64 x =
     (if x = 0 then Finite 0
      else
        let e = max (ilog2 \<bar>x\<bar>) (- 1022);
            q = 2 powi (e - 52);
            r = of_int (round_half_even (x / q)) * q
        in if 2 ^ 1024 \<le> \<bar>r\<bar> then Inf (0 < r) else Finite r)"

text \<open>
  A decimal literal with \<open>k\<close> digits after the point, such as \<^verbatim>\<open>23.2\<close>
  (\<open>decimal 232 1\<close>), and the float it denotes in the source: the nearest one.
\<close>

definition decimal :: "int \<Rightarrow> int \<Rightarrow> real" where
  "decimal m k = of_int m / 10 powi k"

definition float_lit :: "real \<Rightarrow> float64" where
  "float_lit x = binary64 x"

text \<open>Float multiplication: the exact product, rounded; the IEEE rules for infinities and NaN.\<close>

fun fmul :: "float64 \<Rightarrow> float64 \<Rightarrow> float64" where
  "fmul (Finite a) (Finite b) = binary64 (a * b)"
| "fmul (Finite a) (Inf s) = (if a = 0 then NaN else Inf (s = (0 < a)))"
| "fmul (Inf s) (Finite b) = (if b = 0 then NaN else Inf (s = (0 < b)))"
| "fmul (Inf s) (Inf t) = Inf (s = t)"
| "fmul NaN _ = NaN"
| "fmul _ NaN = NaN"

subsection \<open>Python numbers\<close>

datatype pynum = PyInt int | PyFloat float64

text \<open>
  Conversion of an \<^verbatim>\<open>int\<close> operand to \<^verbatim>\<open>float\<close> in mixed arithmetic: correctly
  rounded, \<^verbatim>\<open>OverflowError\<close> when the integer is too large for a float.
\<close>

definition float_of_int :: "int \<Rightarrow> py_error + float64" where
  "float_of_int n = (case binary64 (of_int n) of Finite r \<Rightarrow> Inr (Finite r) | _ \<Rightarrow> Inl OverflowError)"

definition to_float :: "pynum \<Rightarrow> py_error + float64" where
  "to_float x = (case x of PyInt n \<Rightarrow> float_of_int n | PyFloat f \<Rightarrow> Inr f)"

text \<open>\<^verbatim>\<open>a * b\<close>: exact on two ints, float multiplication as soon as one operand is a float.\<close>

definition py_mul :: "pynum \<Rightarrow> pynum \<Rightarrow> py_error + pynum" where
  "py_mul a b =
     (case (a, b) of
        (PyInt m, PyInt n) \<Rightarrow> Inr (PyInt (m * n))
      | _ \<Rightarrow> bind_err (to_float a) (\<lambda>x. bind_err (to_float b) (\<lambda>y. Inr (PyFloat (fmul x y)))))"

text \<open>
  \<^verbatim>\<open>a / b\<close> on two ints (true division): the correctly rounded quotient as a float,
  \<^verbatim>\<open>ZeroDivisionError\<close> for a zero divisor, \<^verbatim>\<open>OverflowError\<close> when the quotient is
  too large for a float.
\<close>

definition int_truediv :: "int \<Rightarrow> int \<Rightarrow> py_error + pynum" where
  "int_truediv a b =
     (if b = 0 then Inl ZeroDivisionError
      else case binary64 (of_int a / of_int b) of
             Finite r \<Rightarrow> Inr (PyFloat (Finite r))
           | _ \<Rightarrow> Inl OverflowError)"

text \<open>
  \<^verbatim>\<open>round(x, ndigits)\<close> with \<open>ndigits \<ge> 0\<close>. An int is returned as it is. For a float,
  CPython returns infinities and NaN unchanged, returns \<open>x\<close> unchanged when \<open>ndigits\<close>
  exceeds 323, and otherwise rounds the exact value of \<open>x\<close> to \<open>ndigits\<close> decimals
  (ties to even) and returns the float nearest to that decimal, raising
  \<^verbatim>\<open>OverflowError\<close> when it is not finite.
\<close>

definition py_round :: "pynum \<Rightarrow> nat \<Rightarrow> py_error + pynum" where
  "py_round x ndigits =
     (case x of
        PyInt n \<Rightarrow> Inr (PyInt n)
      | PyFloat (Finite a) \<Rightarrow>
          if 323 < ndigits then Inr (PyFloat (Finite a))
          else (case binary64 (of_int (round_half_even (a * 10 ^ ndigits)) / 10 ^ ndigits) of
                  Finite r \<Rightarrow> Inr (PyFloat (Finite r))
                | _ \<Rightarrow> Inl OverflowError)
      | PyFloat f \<Rightarrow> Inr (PyFloat f))"

subsection \<open>Python strings, lists and dictionaries\<close>

text \<open>
  \<^verbatim>\<open>s.split(sep)\<close>: the pieces of \<open>s\<close> between the occurrences of \<open>sep\<close>, found from
  left to right without overlap; \<^verbatim>\<open>ValueError\<close> for an empty separator. \<open>piece\<close> holds
  the characters read since the last separator. A \<open>string\<close> is a list of bytes; a
  Python string stands for its UTF-8 encoding, in which the ASCII separators of the
  source occur exactly where they occur in the text.
\<close>

fun split_from :: "string \<Rightarrow> string \<Rightarrow> string \<Rightarrow> string list" where
  "split_from sep piece [] = [piece]"
| "split_from sep piece (c # cs) =
     (if sep \<noteq> [] \<and> prefix sep (c # cs)
      then piece # split_from sep [] (drop (length sep) (c # cs))
      else split_from sep (piece @ [c]) cs)"

definition py_split :: "string \<Rightarrow> string \<Rightarrow> py_error + string list" where
  "py_split s sep = (if sep = [] then Inl ValueError else Inr (split_from sep [] s))"

text \<open>\<^verbatim>\<open>xs[i]\<close>: a negative index counts from the end, \<^verbatim>\<open>IndexError\<close> out of range.\<close>

definition py_getitem :: "'a list \<Rightarrow> int \<Rightarrow> py_error + 'a" where
  "py_getitem xs i =
     (if 0 \<le> i \<and> i < int (length xs) then Inr (xs ! nat i)
      else if i < 0 \<and> - int (length xs) \<le> i then Inr (xs ! nat (int (length xs) + i))
      else Inl IndexError)"

text \<open>
  A dict literal is the list of its entries (the literals of the source have no
  repeated key); \<^verbatim>\<open>d.get(k, default)\<close> never raises.
\<close>

definition dict_get :: "('k \<times> 'v) list \<Rightarrow> 'k \<Rightarrow> 'v \<Rightarrow> 'v" where
  "dict_get d k dflt = (case map_of d k of None \<Rightarrow> dflt | Some v \<Rightarrow> v)"

subsection \<open>The Reservation model\<close>

type_synonym date = "nat \<times> nat \<times> nat"
type_synonym time = "nat \<times> nat \<times> nat"

record reservation =
  user :: nat
  full_name :: string
  contact_number :: string
  pickup_date :: "date option"
  dropoff_date :: "date option"
  pickup_time :: "time option"
  dropoff_time :: "time option"
  pickup_location :: string
  dropoff_location :: string
  vehicle :: string
  payment_method :: string
  total_fare :: int
  roundtrip :: bool
  gcash_receipt :: "string option"
  created_at :: nat

text \<open>
  The stored \<open>total_fare\<close> (a decimal with two places) is kept as a number of
  hundredths. The first components of the declared choices:
\<close>

definition PICKUP_LOCATION_CHOICES :: "string list" where
  "PICKUP_LOCATION_CHOICES =
     [''lucena_grand_terminal_pick'', ''groto_lucban_quezon_pick'', ''tayabas_city_quezon_pick'']"

definition DROPOFF_LOCATION_CHOICES :: "string list" where
  "DROPOFF_LOCATION_CHOICES =
     [''lucena_grand_terminal_drop'', ''groto_lucban_quezon_drop'', ''tayabas_city_quezon_drop'']"

subsection \<open>calculate_fare\<close>

definition distance_map :: "((string \<times> string) \<times> pynum) list" where
  "distance_map =
     [((''lucban_terminal'', ''lucena_grand_terminal''), PyFloat (float_lit (decimal 232 1))),
      ((''lucban_terminal'', ''tayabas_city_public_market''), PyFloat (float_lit (decimal 129 1))),
      ((''tayabas_city_public_market'', ''lucena_grand_terminal''), PyFloat (float_lit (decimal 92 1)))]"

definition seat_map :: "(string \<times> pynum) list" where
  "seat_map =
     [(''Toyota Corolla'', PyInt 6),
      (''Modernized PUV V1'', PyInt 15),
      (''Modernized PUV V2'', PyInt 15)]"

text \<open>
  The method reads \<open>self\<close> and assigns only local variables (its \<open>total_fare\<close> is a
  local, not the field), so the reservation is returned as it came, next to the
  result: \<open>Inr\<close> the returned number, \<open>Inl\<close> an exception.
\<close>

definition calculate_fare :: "reservation \<Rightarrow> (py_error + pynum) \<times> reservation" where
  "calculate_fare self =
     (bind_err (py_split (pickup_location self) ''_pick'') (\<lambda>pick_parts.
      bind_err (py_getitem pick_parts 0) (\<lambda>pickup_key.
      bind_err (py_split (dropoff_location self) ''_drop'') (\<lambda>drop_parts.
      bind_err (py_getitem drop_parts 0) (\<lambda>dropoff_key.
      let distance = dict_get distance_map (pickup_key, dropoff_key) (PyInt 0) in
      bind_err (int_truediv 17 4) (\<lambda>fare_per_km.
      bind_err (py_mul distance fare_per_km) (\<lambda>base_fare.
      let seat_count = dict_get seat_map (vehicle self) (PyInt 0) in
      bind_err (py_mul base_fare seat_count) (\<lambda>total_fare.
      bind_err (if roundtrip self then py_mul total_fare (PyInt 2) else Inr total_fare)
        (\<lambda>total_fare.
      py_round total_fare 2)))))))),
      self)"

subsection \<open>The statements of the specification\<close>

text \<open>
  The specification derives the route key by stripping the suffix tag of a location
  code: \<open>remove_suffix\<close> drops \<open>suf\<close> from the end of \<open>s\<close> when \<open>s\<close> ends with it
  and leaves \<open>s\<close> alone otherwise.
\<close>

definition remove_suffix :: "string \<Rightarrow> string \<Rightarrow> string" where
  "remove_suffix suf s = (if suffix suf s then take (length s - length suf) s else s)"

text \<open>
  The fare as the specification words it:
  \<^verbatim>\<open>round(distance * (17/4) * seat_count * (2 if roundtrip else 1), 2)\<close>, the
  distance looked up under the suffix-stripped codes.
\<close>

definition fare_by_suffix :: "string \<Rightarrow> string \<Rightarrow> string \<Rightarrow> bool \<Rightarrow> py_error + pynum" where
  "fare_by_suffix pickup dropoff vehicle_class is_roundtrip =
     (let distance = dict_get distance_map
            (remove_suffix ''_pick'' pickup, remove_suffix ''_drop'' dropoff) (PyInt 0);
          seat_count = dict_get seat_map vehicle_class (PyInt 0)
      in bind_err (int_truediv 17 4) (\<lambda>rate.
         bind_err (py_mul distance rate) (\<lambda>a.
         bind_err (py_mul a seat_count) (\<lambda>b.
         bind_err (py_mul b (PyInt (if is_roundtrip then 2 else 1))) (\<lambda>c.
         py_round c 2)))))"

text \<open>
  The part of \<open>s\<close> before the first occurrence of \<open>sep\<close>, all of \<open>s\<close> when \<open>sep\<close>
  does not occur in it.
\<close>

fun before_first :: "string \<Rightarrow> string \<Rightarrow> string" where
  "before_first sep [] = []"
| "before_first sep (c # cs) =
     (if sep \<noteq> [] \<and> prefix sep (c # cs) then [] else c # before_first sep cs)"

text \<open>The same fare formula, the distance looked up under the codes cut at the first tag.\<close>

definition fare_by_first_tag :: "string \<Rightarrow> string \<Rightarrow> string \<Rightarrow> bool \<Rightarrow> py_error + pynum" where
  "fare_by_first_tag pickup dropoff vehicle_class is_roundtrip =
     (let distance = dict_get distance_map
            (before_first ''_pick'' pickup, before_first ''_drop'' dropoff) (PyInt 0);
          seat_count = dict_get seat_map vehicle_class (PyInt 0)
      in bind_err (int_truediv 17 4) (\<lambda>rate.
         bind_err (py_mul distance rate) (\<lambda>a.
         bind_err (py_mul a seat_count) (\<lambda>b.
         bind_err (py_mul b (PyInt (if is_roundtrip then 2 else 1))) (\<lambda>c.
         py_round c 2)))))"

text \<open>\<^verbatim>\<open>fare * 2\<close> on a returned fare.\<close>

definition twice :: "py_error + pynum \<Rightarrow> py_error + pynum" where
  "twice fare = bind_err fare (\<lambda>x. py_mul x (PyInt 2))"

text \<open>The fare zero, as the float \<^verbatim>\<open>0.0\<close> that \<^verbatim>\<open>round\<close> returns.\<close>

definition zero_fare :: "py_error + pynum" where
  "zero_fare = Inr (PyFloat (Finite 0))"

text \<open>A returned fare given by its decimal literal, such as \<^verbatim>\<open>591.60\<close>.\<close>

definition fare_lit :: "real \<Rightarrow> py_error + pynum" where
  "fare_lit x = Inr (PyFloat (float_lit x))"

subsection \<open>Auxiliary definitions\<close>

text \<open>The arithmetic of \<open>calculate_fare\<close> after the two lookups.\<close>

definition fare_value :: "pynum \<Rightarrow> pynum \<Rightarrow> bool \<Rightarrow> py_error + pynum" where
  "fare_value distance seat_count rt =
     bind_err (int_truediv 17 4) (\<lambda>fare_per_km.
     bind_err (py_mul distance fare_per_km) (\<lambda>base_fare.
     bind_err (py_mul base_fare seat_count) (\<lambda>total_fare.
     bind_err (if rt then py_mul total_fare (PyInt 2) else Inr total_fare)
       (\<lambda>total_fare.
     py_round total_fare 2))))"

text \<open>A result that is a returned finite float, not negative.\<close>

definition is_amount :: "py_error + pynum \<Rightarrow> bool" where
  "is_amount m = (case m of Inr (PyFloat (Finite x)) \<Rightarrow> 0 \<le> x | _ \<Rightarrow> False)"

text \<open>Two reservations that differ in every field \<open>calculate_fare\<close> does not read.\<close>

definition sample_reservation :: reservation where
  "sample_reservation =
     \<lparr>user = 1, full_name = ''Juan Dela Cruz'', contact_number = ''09171234567'',
      pickup_date = Some (2024, 5, 1), dropoff_date = Some (2024, 5, 1),
      pickup_time = Some (8, 0, 0), dropoff_time = Some (9, 30, 0),
      pickup_location = ''lucban_terminal_pick'',
      dropoff_location = ''lucena_grand_terminal_drop'',
      vehicle = ''Toyota Corolla'', payment_method = ''cash'', total_fare = 0,
      roundtrip = False, gcash_receipt = None, created_at = 1714521600\<rparr>"

definition other_reservation :: reservation where
  "other_reservation =
     \<lparr>user = 2, full_name = ''Maria Santos'', contact_number = ''09998765432'',
      pickup_date = None, dropoff_date = Some (2025, 1, 15),
      pickup_time = None, dropoff_time = Some (17, 45, 0),
      pickup_location = ''lucban_terminal_pick'',
      dropoff_location = ''lucena_grand_terminal_drop'',
      vehicle = ''Toyota Corolla'', payment_method = ''gcash'', total_fare = 123456,
      roundtrip = False, gcash_receipt = Some ''receipts/r1.png'', created_at = 1736899200\<rparr>"

section \<open>Properties of the model\<close>

subsection \<open>\<open>bit_length\<close> at numerals\<close>

lemma bit_length_0: "bit_length 0 = 0"
  by (subst bit_length.simps) simp

lemma bit_length_1: "bit_length 1 = 1"
  by (subst bit_length.simps) (simp add: bit_length_0)

lemma bit_length_Bit0: "bit_length (numeral (Num.Bit0 k)) = 1 + bit_length (numeral k)"
proof -
  have "(numeral (Num.Bit0 k) :: int) div 2 = numeral k" by simp
  then show ?thesis by (subst bit_length.simps) simp
qed

lemma bit_length_Bit1: "bit_length (numeral (Num.Bit1 k)) = 1 + bit_length (numeral k)"
proof -
  have "(numeral (Num.Bit1 k) :: int) div 2 = numeral k" by simp
  then show ?thesis by (subst bit_length.simps) simp
qed

lemmas bit_length_numeral = bit_length_0 bit_length_1 bit_length_Bit0 bit_length_Bit1

subsection \<open>The float model rounds to nearest\<close>

text \<open>A positive integer has its leading bit at position \<open>bit_length n - 1\<close>.\<close>

lemma bit_length_bounds:
  "0 < n \<Longrightarrow> 0 < bit_length n \<and> 2 ^ nat (bit_length n - 1) \<le> n \<and> n < 2 ^ nat (bit_length n)"
proof (induction n rule: bit_length.induct)
  case (1 n)
  show ?case
  proof (cases "n = 1")
    case True
    then show ?thesis by (simp add: bit_length_1)
  next
    case False
    with "1.prems" have h: "0 < n div 2" by simp
    with "1.prems" have ih: "0 < bit_length (n div 2)"
      "2 ^ nat (bit_length (n div 2) - 1) \<le> n div 2"
      "n div 2 < 2 ^ nat (bit_length (n div 2))"
      using "1.IH" by simp_all
    have bl: "bit_length n = 1 + bit_length (n div 2)"
      using "1.prems" by (subst bit_length.simps) simp
    have e: "nat (bit_length n - 1) = Suc (nat (bit_length (n div 2) - 1))"
      "nat (bit_length n) = Suc (nat (bit_length (n div 2)))"
      using ih(1) bl by simp_all
    from ih(2) have "2 * 2 ^ nat (bit_length (n div 2) - 1) \<le> n" by linarith
    moreover from ih(3) have "n < 2 * 2 ^ nat (bit_length (n div 2))" by linarith
    ultimately show ?thesis using e bl ih(1) by simp
  qed
qed

text \<open>\<open>round_half_even\<close> is within one half of its argument, and even at a tie.\<close>

lemma round_half_even_near: "\<bar>x - of_int (round_half_even x)\<bar> \<le> 1 / 2"
  unfolding round_half_even_def Let_def by (auto; linarith)

text \<open>\<open>ilog2 x\<close> is the exponent of the leading bit of \<open>x\<close>.\<close>

lemma ilog2_bounds:
  assumes "0 < x"
  shows "2 powi ilog2 x \<le> x \<and> x < 2 powi (ilog2 x + 1)"
proof (cases "1 \<le> x")
  case True
  define n where "n = \<lfloor>x\<rfloor>"
  have n: "0 < n" "of_int n \<le> x" "x < of_int n + 1"
    using True by (simp_all add: n_def)
  define k where "k = nat (bit_length n - 1)"
  from bit_length_bounds [OF n(1)] have b: "0 < bit_length n" "2 ^ k \<le> n" "n < 2 ^ Suc k"
    unfolding k_def by (simp_all add: Suc_nat_eq_nat_zadd1)
  have e: "ilog2 x = int k"
    using True b(1) by (simp add: ilog2_def n_def [symmetric] k_def)
  have "(2::real) ^ k \<le> of_int n"
    using b(2) by (metis of_int_le_iff of_int_numeral of_int_power)
  then have lo: "2 ^ k \<le> x" using n(2) by linarith
  have "n + 1 \<le> 2 ^ Suc k" using b(3) by linarith
  then have "of_int (n + 1) \<le> (2::real) ^ Suc k"
    by (metis of_int_le_iff of_int_numeral of_int_power)
  then have hi: "x < 2 ^ Suc k" using n(3) by simp
  show ?thesis
    using lo hi unfolding e by (simp add: power_int_add)
next
  case False
  define y where "y = 1 / x"
  have y: "1 < y" "x = 1 / y" "0 < y"
    using False assms by (simp_all add: y_def)
  define m where "m = \<lceil>y\<rceil> - 1"
  have m: "0 < m" "of_int m < y" "y \<le> of_int m + 1"
    using y(1) by (simp_all add: m_def) linarith+
  define j where "j = nat (bit_length m - 1)"
  from bit_length_bounds [OF m(1)] have b: "bit_length m = int (Suc j)" "2 ^ j \<le> m" "m < 2 ^ Suc j"
    unfolding j_def by (simp_all add: Suc_nat_eq_nat_zadd1)
  have e: "ilog2 x = - int (Suc j)"
    using False b(1) by (simp add: ilog2_def y_def [symmetric] m_def [symmetric])
  have "(2::real) ^ j \<le> of_int m"
    using b(2) by (metis of_int_le_iff of_int_numeral of_int_power)
  then have "2 ^ j < y" using m(2) by linarith
  then have hi: "x < 1 / 2 ^ j"
    unfolding y(2) using y(3) by (simp add: field_simps)
  have "m + 1 \<le> 2 ^ Suc j" using b(3) by linarith
  then have "of_int (m + 1) \<le> (2::real) ^ Suc j"
    by (metis of_int_le_iff of_int_numeral of_int_power)
  then have "y \<le> 2 ^ Suc j" using m(3) by simp
  then have lo: "1 / 2 ^ Suc j \<le> x"
    unfolding y(2) using y(3) by (simp add: field_simps)
  have p1: "(2::real) powi (- int (Suc j)) = 1 / 2 ^ Suc j"
    by (simp only: power_int_minus power_int_of_nat inverse_eq_divide)
  have "- int (Suc j) + 1 = - int j" by simp
  then have p2: "(2::real) powi (- int (Suc j) + 1) = 1 / 2 ^ j"
    by (simp only: power_int_minus power_int_of_nat inverse_eq_divide)
  show ?thesis
    using lo hi unfolding e p1 p2 by simp
qed


lemma round_half_even_tie: "x - of_int \<lfloor>x\<rfloor> = 1 / 2 \<Longrightarrow> even (round_half_even x)"
  by (simp add: round_half_even_def Let_def)

lemma round_half_even_le: "x \<le> of_int n \<Longrightarrow> round_half_even x \<le> n"
  using round_half_even_near [of x] by linarith

lemma round_half_even_ge: "of_int n \<le> x \<Longrightarrow> n \<le> round_half_even x"
  using round_half_even_near [of x] by linarith

text \<open>
  A finite \<open>binary64 x\<close> is a significand of at most 53 bits times the spacing of
  the floats at \<open>x\<close>, and lies within half of that spacing of \<open>x\<close>.
\<close>

lemma binary64_nearest:
  assumes "x \<noteq> 0" and "binary64 x = Finite r"
  shows "\<exists>m. \<bar>m\<bar> \<le> 2 ^ 53 \<and> r = of_int m * 2 powi (max (ilog2 \<bar>x\<bar>) (- 1022) - 52)
           \<and> \<bar>x - r\<bar> \<le> 2 powi (max (ilog2 \<bar>x\<bar>) (- 1022) - 52) / 2"
proof -
  define e where "e = max (ilog2 \<bar>x\<bar>) (- 1022)"
  define q :: real where "q = 2 powi (e - 52)"
  define m where "m = round_half_even (x / q)"
  have q: "0 < q" by (simp add: q_def)
  have r: "r = of_int m * q"
    using assms by (simp add: binary64_def Let_def e_def [symmetric] q_def [symmetric]
        m_def [symmetric] split: if_splits)
  have "\<bar>x / q - of_int m\<bar> \<le> 1 / 2"
    unfolding m_def by (rule round_half_even_near)
  then have "\<bar>x / q - of_int m\<bar> * q \<le> 1 / 2 * q"
    using q by (simp add: mult_le_cancel_right)
  moreover have "(x / q - of_int m) * q = x - of_int m * q"
    using q by (simp add: field_simps)
  then have "\<bar>x / q - of_int m\<bar> * q = \<bar>x - of_int m * q\<bar>"
    using q by (metis abs_mult abs_of_pos)
  ultimately have near: "\<bar>x - r\<bar> \<le> q / 2"
    unfolding r by simp
  from assms(1) have "\<bar>x\<bar> < 2 powi (ilog2 \<bar>x\<bar> + 1)"
    using ilog2_bounds [of "\<bar>x\<bar>"] by simp
  also have "\<dots> \<le> 2 powi (e + 1)"
    by (rule power_int_increasing) (simp_all add: e_def)
  also have "\<dots> = 2 ^ 53 * q"
    unfolding q_def by (simp add: power_int_add power_int_diff)
  finally have "\<bar>x\<bar> / q < 2 ^ 53"
    using q by (simp add: field_simps)
  then have b: "x / q \<le> of_int (2 ^ 53)" "of_int (- (2 ^ 53)) \<le> x / q"
    using q by (simp_all add: abs_if field_simps split: if_splits)
  have "m \<le> 2 ^ 53"
    unfolding m_def by (rule round_half_even_le [OF b(1)])
  moreover have "- (2 ^ 53) \<le> m"
    unfolding m_def by (rule round_half_even_ge [OF b(2)])
  ultimately have "\<bar>m\<bar> \<le> 2 ^ 53" by simp
  with r near show ?thesis
    unfolding q_def e_def by blast
qed

subsection \<open>Evaluation at numerals\<close>

lemmas num_eval = binary64_def ilog2_def round_half_even_def bit_length_numeral Let_def
  decimal_def float_lit_def bind_err_def int_truediv_def py_mul_def to_float_def float_of_int_def
  py_round_def

text \<open>The floats of the three distance literals and of the rate.\<close>

lemma float_lit_23_2: "float_lit (decimal 232 1) = Finite (6530219459687219 / 2 ^ 48)"
  by (simp add: num_eval)

lemma float_lit_12_9: "float_lit (decimal 129 1) = Finite (7262054399134925 / 2 ^ 49)"
  by (simp add: num_eval)

lemma float_lit_9_2: "float_lit (decimal 92 1) = Finite (5179139571476070 / 2 ^ 49)"
  by (simp add: num_eval)

lemma fare_per_km: "int_truediv 17 4 = Inr (PyFloat (Finite (17 / 4)))"
  by (simp add: num_eval)

text \<open>The fare for each distance of the table, each seat count and each direction.\<close>

lemma fare_value_23_2:
  "fare_value (PyFloat (float_lit (decimal 232 1))) (PyInt 6) False = fare_lit (decimal 59160 2)"
  "fare_value (PyFloat (float_lit (decimal 232 1))) (PyInt 6) True = fare_lit (decimal 118320 2)"
  "fare_value (PyFloat (float_lit (decimal 232 1))) (PyInt 15) False = fare_lit (decimal 147900 2)"
  "fare_value (PyFloat (float_lit (decimal 232 1))) (PyInt 15) True = fare_lit (decimal 295800 2)"
  by (simp_all add: fare_value_def fare_lit_def num_eval)

lemma fare_value_12_9:
  "fare_value (PyFloat (float_lit (decimal 129 1))) (PyInt 6) False = fare_lit (decimal 32895 2)"
  "fare_value (PyFloat (float_lit (decimal 129 1))) (PyInt 6) True = fare_lit (decimal 65790 2)"
  "fare_value (PyFloat (float_lit (decimal 129 1))) (PyInt 15) False = fare_lit (decimal 82238 2)"
  "fare_value (PyFloat (float_lit (decimal 129 1))) (PyInt 15) True = fare_lit (decimal 164475 2)"
  by (simp_all add: fare_value_def fare_lit_def num_eval)

lemma fare_value_9_2:
  "fare_value (PyFloat (float_lit (decimal 92 1))) (PyInt 6) False = fare_lit (decimal 23460 2)"
  "fare_value (PyFloat (float_lit (decimal 92 1))) (PyInt 6) True = fare_lit (decimal 46920 2)"
  "fare_value (PyFloat (float_lit (decimal 92 1))) (PyInt 15) False = fare_lit (decimal 58650 2)"
  "fare_value (PyFloat (float_lit (decimal 92 1))) (PyInt 15) True = fare_lit (decimal 117300 2)"
  by (simp_all add: fare_value_def fare_lit_def num_eval)

lemma fare_value_no_seats:
  "fare_value (PyFloat (float_lit (decimal 232 1))) (PyInt 0) rt = zero_fare"
  "fare_value (PyFloat (float_lit (decimal 129 1))) (PyInt 0) rt = zero_fare"
  "fare_value (PyFloat (float_lit (decimal 92 1))) (PyInt 0) rt = zero_fare"
  by (simp_all add: fare_value_def zero_fare_def num_eval)

lemma fare_value_no_distance:
  "fare_value (PyInt 0) (PyInt 0) rt = zero_fare"
  "fare_value (PyInt 0) (PyInt 6) rt = zero_fare"
  "fare_value (PyInt 0) (PyInt 15) rt = zero_fare"
  by (simp_all add: fare_value_def zero_fare_def num_eval)

lemma fare_lit_nonzero:
  "fare_lit (decimal 59160 2) \<noteq> zero_fare" "fare_lit (decimal 118320 2) \<noteq> zero_fare"
  "fare_lit (decimal 147900 2) \<noteq> zero_fare" "fare_lit (decimal 295800 2) \<noteq> zero_fare"
  "fare_lit (decimal 32895 2) \<noteq> zero_fare" "fare_lit (decimal 65790 2) \<noteq> zero_fare"
  "fare_lit (decimal 82238 2) \<noteq> zero_fare" "fare_lit (decimal 164475 2) \<noteq> zero_fare"
  "fare_lit (decimal 23460 2) \<noteq> zero_fare" "fare_lit (decimal 46920 2) \<noteq> zero_fare"
  "fare_lit (decimal 58650 2) \<noteq> zero_fare" "fare_lit (decimal 117300 2) \<noteq> zero_fare"
  by (simp_all add: fare_lit_def zero_fare_def num_eval)

text \<open>The lookups.\<close>

lemma distance_lookup:
  "dict_get distance_map (a, b) (PyInt 0) =
     (if a = ''lucban_terminal'' \<and> b = ''lucena_grand_terminal'' then PyFloat (float_lit (decimal 232 1))
      else if a = ''lucban_terminal'' \<and> b = ''tayabas_city_public_market''
        then PyFloat (float_lit (decimal 129 1))
      else if a = ''tayabas_city_public_market'' \<and> b = ''lucena_grand_terminal''
        then PyFloat (float_lit (decimal 92 1))
      else PyInt 0)"
  by (simp add: dict_get_def distance_map_def)

lemma seat_lookup:
  "dict_get seat_map v (PyInt 0) =
     (if v = ''Toyota Corolla'' then PyInt 6
      else if v = ''Modernized PUV V1'' \<or> v = ''Modernized PUV V2'' then PyInt 15
      else PyInt 0)"
  by (simp add: dict_get_def seat_map_def)

text \<open>\<^verbatim>\<open>s.split(sep)[0]\<close> is the part of \<open>s\<close> before the first \<open>sep\<close>.\<close>

lemma split_from_hd:
  "split_from sep piece s \<noteq> [] \<and> hd (split_from sep piece s) = piece @ before_first sep s"
  by (induction s arbitrary: piece) auto

lemma split_first:
  "sep \<noteq> [] \<Longrightarrow> bind_err (py_split s sep) (\<lambda>parts. py_getitem parts 0) = Inr (before_first sep s)"
  using split_from_hd [of sep "[]" s]
  by (cases "split_from sep [] s") (auto simp add: bind_err_def py_split_def py_getitem_def)

lemma calculate_fare_eq:
  "fst (calculate_fare r) =
     fare_value
       (dict_get distance_map
          (before_first ''_pick'' (pickup_location r), before_first ''_drop'' (dropoff_location r))
          (PyInt 0))
       (dict_get seat_map (vehicle r) (PyInt 0)) (roundtrip r)"
proof -
  have p: "split_from ''_pick'' [] (pickup_location r) \<noteq> []"
    and d: "split_from ''_drop'' [] (dropoff_location r) \<noteq> []"
    using split_from_hd by blast+
  have hp: "hd (split_from ''_pick'' [] (pickup_location r)) = before_first ''_pick'' (pickup_location r)"
    and hd: "hd (split_from ''_drop'' [] (dropoff_location r)) = before_first ''_drop'' (dropoff_location r)"
    using split_from_hd [of _ "[]"] by simp_all
  have g: "py_getitem xs 0 = Inr (hd xs)" if "xs \<noteq> []" for xs :: "string list"
    using that by (cases xs) (simp_all add: py_getitem_def)
  show ?thesis
    unfolding calculate_fare_def fare_value_def
    by (simp add: py_split_def bind_err_def g [OF p] g [OF d] hp hd Let_def)
qed

text \<open>Every fare \<open>calculate_fare\<close> can return, by route key, vehicle and direction.\<close>

lemma fare_table:
  "fst (calculate_fare r) =
     (let a = before_first ''_pick'' (pickup_location r);
          b = before_first ''_drop'' (dropoff_location r);
          v = vehicle r; rt = roundtrip r
      in if a = ''lucban_terminal'' \<and> b = ''lucena_grand_terminal'' then
           (if v = ''Toyota Corolla''
              then (if rt then fare_lit (decimal 118320 2) else fare_lit (decimal 59160 2))
            else if v = ''Modernized PUV V1'' \<or> v = ''Modernized PUV V2''
              then (if rt then fare_lit (decimal 295800 2) else fare_lit (decimal 147900 2))
            else zero_fare)
         else if a = ''lucban_terminal'' \<and> b = ''tayabas_city_public_market'' then
           (if v = ''Toyota Corolla''
              then (if rt then fare_lit (decimal 65790 2) else fare_lit (decimal 32895 2))
            else if v = ''Modernized PUV V1'' \<or> v = ''Modernized PUV V2''
              then (if rt then fare_lit (decimal 164475 2) else fare_lit (decimal 82238 2))
            else zero_fare)
         else if a = ''tayabas_city_public_market'' \<and> b = ''lucena_grand_terminal'' then
           (if v = ''Toyota Corolla''
              then (if rt then fare_lit (decimal 46920 2) else fare_lit (decimal 23460 2))
            else if v = ''Modernized PUV V1'' \<or> v = ''Modernized PUV V2''
              then (if rt then fare_lit (decimal 117300 2) else fare_lit (decimal 58650 2))
            else zero_fare)
         else zero_fare)"
  unfolding calculate_fare_eq distance_lookup seat_lookup Let_def
  by (simp add: fare_value_23_2 fare_value_12_9 fare_value_9_2 fare_value_no_seats
      fare_value_no_distance)

section \<open>The claims\<close>

text \<open>The route keys of the location codes used below.\<close>

lemma before_first_codes:
  "before_first ''_pick'' ''lucban_terminal_pick'' = ''lucban_terminal''"
  "before_first ''_pick'' ''tayabas_city_public_market_pick'' = ''tayabas_city_public_market''"
  "before_first ''_pick'' ''lucena_grand_terminal_pick'' = ''lucena_grand_terminal''"
  "before_first ''_pick'' ''groto_lucban_quezon_pick'' = ''groto_lucban_quezon''"
  "before_first ''_pick'' ''tayabas_city_quezon_pick'' = ''tayabas_city_quezon''"
  "before_first ''_drop'' ''lucena_grand_terminal_drop'' = ''lucena_grand_terminal''"
  "before_first ''_drop'' ''tayabas_city_public_market_drop'' = ''tayabas_city_public_market''"
  "before_first ''_drop'' ''lucban_terminal_drop'' = ''lucban_terminal''"
  "before_first ''_drop'' ''groto_lucban_quezon_drop'' = ''groto_lucban_quezon''"
  "before_first ''_drop'' ''tayabas_city_quezon_drop'' = ''tayabas_city_quezon''"
  by simp_all

text \<open>
  Claim C3. For pickup \<^verbatim>\<open>lucban_terminal_pick\<close>, dropoff \<^verbatim>\<open>lucena_grand_terminal_drop\<close>,
  vehicle \<^verbatim>\<open>Toyota Corolla\<close> and a one-way trip, whatever the other fields of the
  reservation, \<open>calculate_fare\<close> returns the float \<^verbatim>\<open>591.60\<close>: the distance found is
  \<^verbatim>\<open>23.2\<close>, the rate \<^verbatim>\<open>17 / 4\<close> is \<^verbatim>\<open>4.25\<close>, the base fare \<^verbatim>\<open>23.2 * 4.25\<close> is
  the float \<^verbatim>\<open>98.6\<close>, and the seat count is 6.
\<close>

theorem fare_lucban_lucena_corolla_oneway:
  "fst (calculate_fare (r\<lparr>pickup_location := ''lucban_terminal_pick'',
          dropoff_location := ''lucena_grand_terminal_drop'',
          vehicle := ''Toyota Corolla'', roundtrip := False\<rparr>)) = fare_lit (decimal 59160 2)
   \<and> dict_get distance_map (''lucban_terminal'', ''lucena_grand_terminal'') (PyInt 0)
       = PyFloat (float_lit (decimal 232 1))
   \<and> int_truediv 17 4 = Inr (PyFloat (float_lit (decimal 425 2)))
   \<and> py_mul (PyFloat (float_lit (decimal 232 1))) (PyFloat (float_lit (decimal 425 2)))
       = Inr (PyFloat (float_lit (decimal 986 1)))
   \<and> dict_get seat_map ''Toyota Corolla'' (PyInt 0) = PyInt 6"
proof -
  have "fst (calculate_fare (r\<lparr>pickup_location := ''lucban_terminal_pick'',
          dropoff_location := ''lucena_grand_terminal_drop'',
          vehicle := ''Toyota Corolla'', roundtrip := False\<rparr>)) = fare_lit (decimal 59160 2)"
    by (simp add: fare_table before_first_codes)
  moreover have "dict_get distance_map (''lucban_terminal'', ''lucena_grand_terminal'') (PyInt 0)
       = PyFloat (float_lit (decimal 232 1))"
    by (simp add: distance_lookup)
  moreover have "int_truediv 17 4 = Inr (PyFloat (float_lit (decimal 425 2)))"
    by (simp add: num_eval)
  moreover have "py_mul (PyFloat (float_lit (decimal 232 1))) (PyFloat (float_lit (decimal 425 2)))
       = Inr (PyFloat (float_lit (decimal 986 1)))"
    by (simp add: num_eval)
  moreover have "dict_get seat_map ''Toyota Corolla'' (PyInt 0) = PyInt 6"
    by (simp add: seat_lookup)
  ultimately show ?thesis by blast
qed

text \<open>
  Claim C4. For the same route, vehicle \<^verbatim>\<open>Modernized PUV V1\<close> and a round trip,
  \<open>calculate_fare\<close> returns the float \<^verbatim>\<open>2958.00\<close>: the base fare \<^verbatim>\<open>98.6\<close> times
  15 seats is \<^verbatim>\<open>1479.0\<close>, and doubled it is \<^verbatim>\<open>2958.0\<close>.
\<close>

theorem fare_lucban_lucena_puv1_roundtrip:
  "fst (calculate_fare (r\<lparr>pickup_location := ''lucban_terminal_pick'',
          dropoff_location := ''lucena_grand_terminal_drop'',
          vehicle := ''Modernized PUV V1'', roundtrip := True\<rparr>)) = fare_lit (decimal 295800 2)
   \<and> py_mul (PyFloat (float_lit (decimal 986 1))) (PyInt 15)
       = Inr (PyFloat (float_lit (decimal 14790 1)))
   \<and> py_mul (PyFloat (float_lit (decimal 14790 1))) (PyInt 2)
       = Inr (PyFloat (float_lit (decimal 29580 1)))"
proof -
  have "fst (calculate_fare (r\<lparr>pickup_location := ''lucban_terminal_pick'',
          dropoff_location := ''lucena_grand_terminal_drop'',
          vehicle := ''Modernized PUV V1'', roundtrip := True\<rparr>)) = fare_lit (decimal 295800 2)"
    by (simp add: fare_table before_first_codes)
  moreover have "py_mul (PyFloat (float_lit (decimal 986 1))) (PyInt 15)
       = Inr (PyFloat (float_lit (decimal 14790 1)))"
    by (simp add: num_eval)
  moreover have "py_mul (PyFloat (float_lit (decimal 14790 1))) (PyInt 2)
       = Inr (PyFloat (float_lit (decimal 29580 1)))"
    by (simp add: num_eval)
  ultimately show ?thesis by blast
qed

text \<open>
  Claim C2. When the pickup code is one of \<open>PICKUP_LOCATION_CHOICES\<close> and the dropoff
  code one of \<open>DROPOFF_LOCATION_CHOICES\<close>, \<open>calculate_fare\<close> returns 0 for every
  vehicle and direction: the route keys are among \<^verbatim>\<open>lucena_grand_terminal\<close>,
  \<^verbatim>\<open>groto_lucban_quezon\<close> and \<^verbatim>\<open>tayabas_city_quezon\<close>, and no pair of them is a key
  of \<open>distance_map\<close>.
\<close>

theorem declared_choices_zero_fare:
  assumes "pickup_location r \<in> set PICKUP_LOCATION_CHOICES"
    and "dropoff_location r \<in> set DROPOFF_LOCATION_CHOICES"
  shows "fst (calculate_fare r) = zero_fare
    \<and> map_of distance_map
         (before_first ''_pick'' (pickup_location r), before_first ''_drop'' (dropoff_location r))
       = None
    \<and> before_first ''_pick'' (pickup_location r)
         \<in> {''lucena_grand_terminal'', ''groto_lucban_quezon'', ''tayabas_city_quezon''}
    \<and> before_first ''_drop'' (dropoff_location r)
         \<in> {''lucena_grand_terminal'', ''groto_lucban_quezon'', ''tayabas_city_quezon''}"
proof -
  from assms(1) have p: "before_first ''_pick'' (pickup_location r)
         \<in> {''lucena_grand_terminal'', ''groto_lucban_quezon'', ''tayabas_city_quezon''}"
    unfolding PICKUP_LOCATION_CHOICES_def by (auto simp add: before_first_codes)
  from assms(2) have d: "before_first ''_drop'' (dropoff_location r)
         \<in> {''lucena_grand_terminal'', ''groto_lucban_quezon'', ''tayabas_city_quezon''}"
    unfolding DROPOFF_LOCATION_CHOICES_def by (auto simp add: before_first_codes)
  from p have np: "before_first ''_pick'' (pickup_location r) \<noteq> ''lucban_terminal''"
     "before_first ''_pick'' (pickup_location r) \<noteq> ''tayabas_city_public_market''"
    by auto
  have "fst (calculate_fare r) = zero_fare"
    by (simp add: fare_table np)
  moreover have "map_of distance_map
         (before_first ''_pick'' (pickup_location r), before_first ''_drop'' (dropoff_location r))
       = None"
    using np by (simp add: distance_map_def)
  ultimately show ?thesis using p d by blast
qed

theorem declared_choices_zero_fare_witness:
  "pickup_location (sample_reservation\<lparr>pickup_location := ''tayabas_city_quezon_pick'',
       dropoff_location := ''lucena_grand_terminal_drop'', vehicle := ''Modernized PUV V2'',
       roundtrip := True\<rparr>) \<in> set PICKUP_LOCATION_CHOICES
   \<and> dropoff_location (sample_reservation\<lparr>pickup_location := ''tayabas_city_quezon_pick'',
       dropoff_location := ''lucena_grand_terminal_drop'', vehicle := ''Modernized PUV V2'',
       roundtrip := True\<rparr>) \<in> set DROPOFF_LOCATION_CHOICES
   \<and> fst (calculate_fare (sample_reservation\<lparr>pickup_location := ''tayabas_city_quezon_pick'',
       dropoff_location := ''lucena_grand_terminal_drop'', vehicle := ''Modernized PUV V2'',
       roundtrip := True\<rparr>)) = zero_fare"
  using declared_choices_zero_fare [of "sample_reservation\<lparr>pickup_location := ''tayabas_city_quezon_pick'',
       dropoff_location := ''lucena_grand_terminal_drop'', vehicle := ''Modernized PUV V2'',
       roundtrip := True\<rparr>"]
  by (simp add: PICKUP_LOCATION_CHOICES_def DROPOFF_LOCATION_CHOICES_def)

text \<open>
  The formula of the specification, with its factor \<^verbatim>\<open>2 if roundtrip else 1\<close>, agrees
  with the arithmetic of the code on every distance and seat count the lookups return.
\<close>

lemma formula_eq_fare_value:
  assumes "d = PyInt 0 \<or> d = PyFloat (float_lit (decimal 232 1))
      \<or> d = PyFloat (float_lit (decimal 129 1)) \<or> d = PyFloat (float_lit (decimal 92 1))"
    and "s = PyInt 0 \<or> s = PyInt 6 \<or> s = PyInt 15"
  shows "bind_err (int_truediv 17 4) (\<lambda>rate.
         bind_err (py_mul d rate) (\<lambda>a.
         bind_err (py_mul a s) (\<lambda>b.
         bind_err (py_mul b (PyInt (if rt then 2 else 1))) (\<lambda>c.
         py_round c 2)))) = fare_value d s rt"
proof (cases rt)
  case True
  then show ?thesis by (simp add: fare_value_def)
next
  case False
  show ?thesis
    using assms False by (elim disjE) (simp_all add: fare_value_def num_eval)
qed

lemma distance_lookup_range:
  "dict_get distance_map k (PyInt 0) = PyInt 0
   \<or> dict_get distance_map k (PyInt 0) = PyFloat (float_lit (decimal 232 1))
   \<or> dict_get distance_map k (PyInt 0) = PyFloat (float_lit (decimal 129 1))
   \<or> dict_get distance_map k (PyInt 0) = PyFloat (float_lit (decimal 92 1))"
  by (cases k) (simp add: distance_lookup)

lemma seat_lookup_range:
  "dict_get seat_map v (PyInt 0) = PyInt 0 \<or> dict_get seat_map v (PyInt 0) = PyInt 6
   \<or> dict_get seat_map v (PyInt 0) = PyInt 15"
  by (simp add: seat_lookup)

text \<open>
  Claim C1, as amended. For every pickup code, dropoff code, vehicle and direction,
  \<open>calculate_fare\<close> returns
  \<^verbatim>\<open>round(distance * (17/4) * seat_count * (2 if roundtrip else 1), 2)\<close>, where the
  distance is looked up in the three-entry table (0 when absent) under the pair of
  the pickup code cut at its first \<^verbatim>\<open>_pick\<close> and the dropoff code cut at its first
  \<^verbatim>\<open>_drop\<close> (a code without the tag is kept whole), and the seat count is looked up
  in the seat table (0 when absent).
\<close>

theorem calculate_fare_refines_fare_by_first_tag:
  "fst (calculate_fare r) =
     fare_by_first_tag (pickup_location r) (dropoff_location r) (vehicle r) (roundtrip r)"
  unfolding calculate_fare_eq fare_by_first_tag_def Let_def
  by (rule formula_eq_fare_value [symmetric, OF distance_lookup_range seat_lookup_range])

text \<open>
  Claim C1 as stated, with the keys obtained by stripping the suffixes, fails: the
  pickup code \<^verbatim>\<open>lucban_terminal_pick2\<close> does not end with \<^verbatim>\<open>_pick\<close>, so stripping
  leaves it whole and the stated fare is 0, while \<^verbatim>\<open>split('_pick')[0]\<close> gives
  \<^verbatim>\<open>lucban_terminal\<close> and the code returns \<^verbatim>\<open>591.6\<close>.
\<close>

theorem calculate_fare_differs_from_fare_by_suffix:
  "fst (calculate_fare (sample_reservation\<lparr>pickup_location := ''lucban_terminal_pick2'',
          dropoff_location := ''lucena_grand_terminal_drop'',
          vehicle := ''Toyota Corolla'', roundtrip := False\<rparr>)) = fare_lit (decimal 59160 2)
   \<and> fare_by_suffix ''lucban_terminal_pick2'' ''lucena_grand_terminal_drop''
        ''Toyota Corolla'' False = zero_fare
   \<and> fst (calculate_fare (sample_reservation\<lparr>pickup_location := ''lucban_terminal_pick2'',
          dropoff_location := ''lucena_grand_terminal_drop'',
          vehicle := ''Toyota Corolla'', roundtrip := False\<rparr>))
      \<noteq> fare_by_suffix ''lucban_terminal_pick2'' ''lucena_grand_terminal_drop''
        ''Toyota Corolla'' False"
proof -
  have k: "before_first ''_pick'' ''lucban_terminal_pick2'' = ''lucban_terminal''"
    by simp
  have c: "fst (calculate_fare (sample_reservation\<lparr>pickup_location := ''lucban_terminal_pick2'',
          dropoff_location := ''lucena_grand_terminal_drop'',
          vehicle := ''Toyota Corolla'', roundtrip := False\<rparr>)) = fare_lit (decimal 59160 2)"
    by (simp add: fare_table k before_first_codes)
  have "remove_suffix ''_pick'' ''lucban_terminal_pick2'' = ''lucban_terminal_pick2''"
    by (simp add: remove_suffix_def suffix_to_prefix)
  then have "dict_get distance_map (remove_suffix ''_pick'' ''lucban_terminal_pick2'',
       remove_suffix ''_drop'' ''lucena_grand_terminal_drop'') (PyInt 0) = PyInt 0"
    by (simp add: distance_lookup)
  then have s: "fare_by_suffix ''lucban_terminal_pick2'' ''lucena_grand_terminal_drop''
        ''Toyota Corolla'' False = zero_fare"
    unfolding fare_by_suffix_def Let_def
    by (simp add: seat_lookup zero_fare_def num_eval)
  from c s fare_lit_nonzero(1) show ?thesis by simp
qed

text \<open>Doubling each one-way fare of the table.\<close>

lemma twice_fares:
  "twice (fare_lit (decimal 59160 2)) = fare_lit (decimal 118320 2)"
  "twice (fare_lit (decimal 147900 2)) = fare_lit (decimal 295800 2)"
  "twice (fare_lit (decimal 32895 2)) = fare_lit (decimal 65790 2)"
  "twice (fare_lit (decimal 23460 2)) = fare_lit (decimal 46920 2)"
  "twice (fare_lit (decimal 58650 2)) = fare_lit (decimal 117300 2)"
  "twice zero_fare = zero_fare"
  by (simp_all add: twice_def fare_lit_def zero_fare_def num_eval)

lemma twice_822_38:
  "twice (fare_lit (decimal 82238 2)) = fare_lit (decimal 164476 2)"
  "fare_lit (decimal 164476 2) \<noteq> fare_lit (decimal 164475 2)"
  by (simp_all add: twice_def fare_lit_def zero_fare_def num_eval)

text \<open>
  Claim C5 as stated fails: from \<^verbatim>\<open>lucban_terminal_pick\<close> to
  \<^verbatim>\<open>tayabas_city_public_market_drop\<close> in a \<^verbatim>\<open>Modernized PUV V1\<close> the total before
  rounding is \<^verbatim>\<open>822.375\<close>; one way it rounds to \<^verbatim>\<open>822.38\<close>, while the round trip
  doubles first and returns \<^verbatim>\<open>1644.75\<close>, which is not twice \<^verbatim>\<open>822.38\<close>.
\<close>

theorem roundtrip_not_twice_oneway:
  "fst (calculate_fare (sample_reservation\<lparr>pickup_location := ''lucban_terminal_pick'',
          dropoff_location := ''tayabas_city_public_market_drop'',
          vehicle := ''Modernized PUV V1'', roundtrip := True\<rparr>))
   \<noteq> twice (fst (calculate_fare (sample_reservation\<lparr>pickup_location := ''lucban_terminal_pick'',
          dropoff_location := ''tayabas_city_public_market_drop'',
          vehicle := ''Modernized PUV V1'', roundtrip := False\<rparr>)))"
  using twice_822_38(2) by (simp add: fare_table before_first_codes twice_822_38(1))

text \<open>
  Claim C5, as amended. The total is doubled before it is rounded to two decimals.
  The round-trip fare equals twice the one-way fare for every pickup, dropoff and
  vehicle except on the route key (\<^verbatim>\<open>lucban_terminal\<close>, \<^verbatim>\<open>tayabas_city_public_market\<close>)
  with a 15-seat vehicle (\<^verbatim>\<open>Modernized PUV V1\<close> or \<^verbatim>\<open>V2\<close>), where the one-way fare is
  \<^verbatim>\<open>822.38\<close> and the round-trip fare is \<^verbatim>\<open>1644.75\<close>.
\<close>

theorem roundtrip_twice_oneway_iff:
  "(before_first ''_pick'' (pickup_location r) = ''lucban_terminal''
      \<and> before_first ''_drop'' (dropoff_location r) = ''tayabas_city_public_market''
      \<and> (vehicle r = ''Modernized PUV V1'' \<or> vehicle r = ''Modernized PUV V2'')
    \<longrightarrow> fst (calculate_fare (r\<lparr>roundtrip := False\<rparr>)) = fare_lit (decimal 82238 2)
      \<and> fst (calculate_fare (r\<lparr>roundtrip := True\<rparr>)) = fare_lit (decimal 164475 2))
   \<and> (fst (calculate_fare (r\<lparr>roundtrip := True\<rparr>))
          = twice (fst (calculate_fare (r\<lparr>roundtrip := False\<rparr>)))
        \<longleftrightarrow> \<not> (before_first ''_pick'' (pickup_location r) = ''lucban_terminal''
            \<and> before_first ''_drop'' (dropoff_location r) = ''tayabas_city_public_market''
            \<and> (vehicle r = ''Modernized PUV V1'' \<or> vehicle r = ''Modernized PUV V2'')))"
  using twice_822_38(2) by (auto simp add: fare_table Let_def twice_fares twice_822_38(1))

text \<open>
  The amended claim C5 at two reservations: the sample one (route
  \<^verbatim>\<open>lucban_terminal\<close> to \<^verbatim>\<open>lucena_grand_terminal\<close>, \<^verbatim>\<open>Toyota Corolla\<close>), where the
  round trip costs twice the one-way fare, and one of the exceptional ones.
\<close>

theorem roundtrip_twice_oneway_iff_witness:
  "fst (calculate_fare (sample_reservation\<lparr>roundtrip := True\<rparr>))
     = twice (fst (calculate_fare (sample_reservation\<lparr>roundtrip := False\<rparr>)))
   \<and> fst (calculate_fare (sample_reservation\<lparr>dropoff_location := ''tayabas_city_public_market_drop'',
          vehicle := ''Modernized PUV V2'', roundtrip := False\<rparr>)) = fare_lit (decimal 82238 2)
   \<and> fst (calculate_fare (sample_reservation\<lparr>dropoff_location := ''tayabas_city_public_market_drop'',
          vehicle := ''Modernized PUV V2'', roundtrip := True\<rparr>)) = fare_lit (decimal 164475 2)"
  using roundtrip_twice_oneway_iff [of sample_reservation]
    roundtrip_twice_oneway_iff [of "sample_reservation\<lparr>dropoff_location := ''tayabas_city_public_market_drop'',
          vehicle := ''Modernized PUV V2''\<rparr>"]
  by (simp add: sample_reservation_def before_first_codes)

text \<open>
  Claim C6. The route (\<^verbatim>\<open>lucban_terminal\<close>, \<^verbatim>\<open>lucena_grand_terminal\<close>) has distance
  \<^verbatim>\<open>23.2\<close> and the reversed pair is not in the table: for pickup
  \<^verbatim>\<open>lucena_grand_terminal_pick\<close> and dropoff \<^verbatim>\<open>lucban_terminal_drop\<close> the fare is 0
  for every vehicle and direction, while the forward fare of a \<^verbatim>\<open>Toyota Corolla\<close> is
  not 0, so the fare is not symmetric.
\<close>

theorem reverse_route_zero_fare:
  "fst (calculate_fare (r\<lparr>pickup_location := ''lucena_grand_terminal_pick'',
          dropoff_location := ''lucban_terminal_drop''\<rparr>)) = zero_fare
   \<and> dict_get distance_map (''lucban_terminal'', ''lucena_grand_terminal'') (PyInt 0)
       = PyFloat (float_lit (decimal 232 1))
   \<and> map_of distance_map (''lucena_grand_terminal'', ''lucban_terminal'') = None
   \<and> fst (calculate_fare (r\<lparr>pickup_location := ''lucban_terminal_pick'',
          dropoff_location := ''lucena_grand_terminal_drop'',
          vehicle := ''Toyota Corolla''\<rparr>)) \<noteq> zero_fare"
proof -
  have "fst (calculate_fare (r\<lparr>pickup_location := ''lucena_grand_terminal_pick'',
          dropoff_location := ''lucban_terminal_drop''\<rparr>)) = zero_fare"
    by (simp add: fare_table before_first_codes)
  moreover have "dict_get distance_map (''lucban_terminal'', ''lucena_grand_terminal'') (PyInt 0)
       = PyFloat (float_lit (decimal 232 1))"
    by (simp add: distance_lookup)
  moreover have "map_of distance_map (''lucena_grand_terminal'', ''lucban_terminal'') = None"
    by (simp add: distance_map_def)
  moreover have "fst (calculate_fare (r\<lparr>pickup_location := ''lucban_terminal_pick'',
          dropoff_location := ''lucena_grand_terminal_drop'',
          vehicle := ''Toyota Corolla''\<rparr>)) \<noteq> zero_fare"
    by (simp add: fare_table before_first_codes fare_lit_nonzero)
  ultimately show ?thesis by blast
qed

text \<open>
  Claim C8. For every vehicle string other than \<^verbatim>\<open>Toyota Corolla\<close>,
  \<^verbatim>\<open>Modernized PUV V1\<close> and \<^verbatim>\<open>Modernized PUV V2\<close>, \<open>calculate_fare\<close> returns 0 for
  every pickup, dropoff and direction.
\<close>

theorem unknown_vehicle_zero_fare:
  assumes "vehicle r \<notin> {''Toyota Corolla'', ''Modernized PUV V1'', ''Modernized PUV V2''}"
  shows "fst (calculate_fare r) = zero_fare"
  using assms by (simp add: fare_table Let_def)

text \<open>
  Claim C8 on a route with a non-zero distance: an unknown vehicle on the route of
  distance \<^verbatim>\<open>23.2\<close>, round trip.
\<close>

theorem unknown_vehicle_zero_fare_witness:
  "''Jeepney'' \<notin> {''Toyota Corolla'', ''Modernized PUV V1'', ''Modernized PUV V2''}
   \<and> dict_get distance_map (''lucban_terminal'', ''lucena_grand_terminal'') (PyInt 0)
       = PyFloat (float_lit (decimal 232 1))
   \<and> fst (calculate_fare (sample_reservation\<lparr>pickup_location := ''lucban_terminal_pick'',
          dropoff_location := ''lucena_grand_terminal_drop'',
          vehicle := ''Jeepney'', roundtrip := True\<rparr>)) = zero_fare"
  using unknown_vehicle_zero_fare [of "sample_reservation\<lparr>pickup_location := ''lucban_terminal_pick'',
          dropoff_location := ''lucena_grand_terminal_drop'',
          vehicle := ''Jeepney'', roundtrip := True\<rparr>"]
  by (simp add: distance_lookup)

text \<open>Decimal fares are finite floats, not negative.\<close>

lemma is_amount_iff: "is_amount m \<longleftrightarrow> (\<exists>x. 0 \<le> x \<and> m = Inr (PyFloat (Finite x)))"
  by (auto simp add: is_amount_def split: sum.splits pynum.splits float64.splits)

lemma fare_lit_amount:
  "is_amount (fare_lit (decimal 59160 2))" "is_amount (fare_lit (decimal 118320 2))"
  "is_amount (fare_lit (decimal 147900 2))" "is_amount (fare_lit (decimal 295800 2))"
  "is_amount (fare_lit (decimal 32895 2))" "is_amount (fare_lit (decimal 65790 2))"
  "is_amount (fare_lit (decimal 82238 2))" "is_amount (fare_lit (decimal 164475 2))"
  "is_amount (fare_lit (decimal 23460 2))" "is_amount (fare_lit (decimal 46920 2))"
  "is_amount (fare_lit (decimal 58650 2))" "is_amount (fare_lit (decimal 117300 2))"
  "is_amount zero_fare"
  by (simp_all add: is_amount_def fare_lit_def zero_fare_def num_eval)

lemma calculate_fare_returns:
  "\<exists>x. 0 \<le> x \<and> fst (calculate_fare r) = Inr (PyFloat (Finite x))"
  unfolding is_amount_iff [symmetric] fare_table Let_def
  by (simp add: fare_lit_amount)

text \<open>
  Claim C9, as amended. For all strings in the three fields and either direction,
  \<open>calculate_fare\<close> raises no exception: it returns a finite float that is not
  negative. When the pair of the pickup code cut at its first \<^verbatim>\<open>_pick\<close> and the
  dropoff code cut at its first \<^verbatim>\<open>_drop\<close> is not a key of the distance table, it
  returns 0 for every vehicle and direction.
\<close>

theorem calculate_fare_no_raise_unknown_route_zero:
  "(\<exists>x. 0 \<le> x \<and> fst (calculate_fare r) = Inr (PyFloat (Finite x)))
   \<and> (map_of distance_map
         (before_first ''_pick'' (pickup_location r), before_first ''_drop'' (dropoff_location r))
        = None
      \<longrightarrow> fst (calculate_fare r) = zero_fare)"
proof -
  have "fst (calculate_fare r) = zero_fare"
    if "map_of distance_map
         (before_first ''_pick'' (pickup_location r), before_first ''_drop'' (dropoff_location r))
        = None"
    using that by (auto simp add: fare_table Let_def distance_map_def split: if_splits)
  with calculate_fare_returns show ?thesis by blast
qed

text \<open>
  The amended claim C9 on a pair of known terminals that is not a route: from
  \<^verbatim>\<open>lucena_grand_terminal\<close> to \<^verbatim>\<open>tayabas_city_public_market\<close>.
\<close>

theorem calculate_fare_no_raise_unknown_route_zero_witness:
  "map_of distance_map
     (before_first ''_pick'' ''lucena_grand_terminal_pick'',
      before_first ''_drop'' ''tayabas_city_public_market_drop'') = None
   \<and> fst (calculate_fare (sample_reservation\<lparr>pickup_location := ''lucena_grand_terminal_pick'',
        dropoff_location := ''tayabas_city_public_market_drop''\<rparr>)) = zero_fare"
  using calculate_fare_no_raise_unknown_route_zero
    [of "sample_reservation\<lparr>pickup_location := ''lucena_grand_terminal_pick'',
        dropoff_location := ''tayabas_city_public_market_drop''\<rparr>"]
  by (simp add: distance_map_def)

text \<open>
  Claim C9 as stated, with the pair obtained by stripping the suffixes, fails: the
  dropoff code \<^verbatim>\<open>lucena_grand_terminal_drop_off\<close> does not end with \<^verbatim>\<open>_drop\<close>, so the
  stripped pair is not a route, yet \<^verbatim>\<open>split('_drop')[0]\<close> is \<^verbatim>\<open>lucena_grand_terminal\<close>
  and from \<^verbatim>\<open>tayabas_city_public_market_pick\<close> the code returns \<^verbatim>\<open>586.5\<close>, not 0.
\<close>

theorem suffix_nonroute_nonzero_fare:
  "map_of distance_map
     (remove_suffix ''_pick'' ''tayabas_city_public_market_pick'',
      remove_suffix ''_drop'' ''lucena_grand_terminal_drop_off'') = None
   \<and> fst (calculate_fare (sample_reservation\<lparr>pickup_location := ''tayabas_city_public_market_pick'',
        dropoff_location := ''lucena_grand_terminal_drop_off'',
        vehicle := ''Modernized PUV V2'', roundtrip := False\<rparr>)) = fare_lit (decimal 58650 2)
   \<and> fst (calculate_fare (sample_reservation\<lparr>pickup_location := ''tayabas_city_public_market_pick'',
        dropoff_location := ''lucena_grand_terminal_drop_off'',
        vehicle := ''Modernized PUV V2'', roundtrip := False\<rparr>)) \<noteq> zero_fare"
proof -
  have "remove_suffix ''_drop'' ''lucena_grand_terminal_drop_off'' = ''lucena_grand_terminal_drop_off''"
    by (simp add: remove_suffix_def suffix_to_prefix)
  then have n: "map_of distance_map
     (remove_suffix ''_pick'' ''tayabas_city_public_market_pick'',
      remove_suffix ''_drop'' ''lucena_grand_terminal_drop_off'') = None"
    by (simp add: distance_map_def)
  have k: "before_first ''_drop'' ''lucena_grand_terminal_drop_off'' = ''lucena_grand_terminal''"
    by simp
  have "fst (calculate_fare (sample_reservation\<lparr>pickup_location := ''tayabas_city_public_market_pick'',
        dropoff_location := ''lucena_grand_terminal_drop_off'',
        vehicle := ''Modernized PUV V2'', roundtrip := False\<rparr>)) = fare_lit (decimal 58650 2)"
    by (simp add: fare_table Let_def k before_first_codes)
  with n fare_lit_nonzero(11) show ?thesis by simp
qed

text \<open>
  Claim C10. \<open>calculate_fare\<close> is a function of the pickup code, the dropoff code,
  the vehicle and the direction alone: two reservations that agree on these four
  fields get equal results, whatever their other fields, and the method leaves
  every field of the reservation as it was.
\<close>

theorem calculate_fare_pure:
  assumes "pickup_location r1 = pickup_location r2"
    and "dropoff_location r1 = dropoff_location r2"
    and "vehicle r1 = vehicle r2"
    and "roundtrip r1 = roundtrip r2"
  shows "fst (calculate_fare r1) = fst (calculate_fare r2)
    \<and> snd (calculate_fare r1) = r1 \<and> snd (calculate_fare r2) = r2"
  using assms by (simp add: calculate_fare_def)

text \<open>
  Claim C10 on two reservations that agree on the four fields and differ in all the
  others (user, name, contact, dates, times, payment method, stored fare, receipt,
  creation time).
\<close>

theorem calculate_fare_pure_witness:
  "user sample_reservation \<noteq> user other_reservation
   \<and> full_name sample_reservation \<noteq> full_name other_reservation
   \<and> contact_number sample_reservation \<noteq> contact_number other_reservation
   \<and> pickup_date sample_reservation \<noteq> pickup_date other_reservation
   \<and> dropoff_date sample_reservation \<noteq> dropoff_date other_reservation
   \<and> pickup_time sample_reservation \<noteq> pickup_time other_reservation
   \<and> dropoff_time sample_reservation \<noteq> dropoff_time other_reservation
   \<and> payment_method sample_reservation \<noteq> payment_method other_reservation
   \<and> total_fare sample_reservation \<noteq> total_fare other_reservation
   \<and> gcash_receipt sample_reservation \<noteq> gcash_receipt other_reservation
   \<and> created_at sample_reservation \<noteq> created_at other_reservation
   \<and> fst (calculate_fare sample_reservation) = fst (calculate_fare other_reservation)
   \<and> snd (calculate_fare sample_reservation) = sample_reservation
   \<and> snd (calculate_fare other_reservation) = other_reservation"
  using calculate_fare_pure [of sample_reservation other_reservation]
  by (simp add: sample_reservation_def other_reservation_def)

text \<open>
  Claim C7 as stated fails: looking up (\<^verbatim>\<open>lucban_terminal\<close>, \<^verbatim>\<open>lucena_grand_terminal\<close>)
  gives \<^verbatim>\<open>23.2\<close> and looking up the exchanged pair gives the default 0, and the
  \<^verbatim>\<open>Toyota Corolla\<close> one-way fares of the two directions differ.
\<close>

theorem fare_not_symmetric:
  "dict_get distance_map (''lucban_terminal'', ''lucena_grand_terminal'') (PyInt 0)
     \<noteq> dict_get distance_map (''lucena_grand_terminal'', ''lucban_terminal'') (PyInt 0)
   \<and> fst (calculate_fare (sample_reservation\<lparr>pickup_location := ''lucban_terminal_pick'',
          dropoff_location := ''lucena_grand_terminal_drop'',
          vehicle := ''Toyota Corolla'', roundtrip := False\<rparr>))
     \<noteq> fst (calculate_fare (sample_reservation\<lparr>pickup_location := ''lucena_grand_terminal_pick'',
          dropoff_location := ''lucban_terminal_drop'',
          vehicle := ''Toyota Corolla'', roundtrip := False\<rparr>))"
  using fare_lit_nonzero(1)
  by (simp add: distance_lookup fare_table Let_def before_first_codes)

text \<open>
  Claim C7, as amended. The table is keyed by ordered pairs. Let \<open>r'\<close> be \<open>r\<close>
  with the two terminals exchanged (same vehicle and direction). When the pair of
  \<open>r\<close> is a defined route, the pair of \<open>r'\<close> is not, and the fare of \<open>r'\<close> is 0.
  The two fares are equal exactly when neither pair is a defined route or the vehicle
  is not in the seat table, that is, when both fares are 0.
\<close>

theorem fare_exchange_iff:
  assumes "before_first ''_pick'' (pickup_location r') = before_first ''_drop'' (dropoff_location r)"
    and "before_first ''_drop'' (dropoff_location r') = before_first ''_pick'' (pickup_location r)"
    and "vehicle r' = vehicle r"
    and "roundtrip r' = roundtrip r"
  shows "(map_of distance_map
            (before_first ''_pick'' (pickup_location r), before_first ''_drop'' (dropoff_location r))
          \<noteq> None
        \<longrightarrow> map_of distance_map
            (before_first ''_pick'' (pickup_location r'), before_first ''_drop'' (dropoff_location r'))
          = None
          \<and> fst (calculate_fare r') = zero_fare)
    \<and> (fst (calculate_fare r') = fst (calculate_fare r)
        \<longleftrightarrow> map_of distance_map
            (before_first ''_pick'' (pickup_location r), before_first ''_drop'' (dropoff_location r))
          = None
          \<and> map_of distance_map
            (before_first ''_pick'' (pickup_location r'), before_first ''_drop'' (dropoff_location r'))
          = None
          \<or> map_of seat_map (vehicle r) = None)"
proof -
  define a where "a = before_first ''_pick'' (pickup_location r)"
  define b where "b = before_first ''_drop'' (dropoff_location r)"
  have keys: "before_first ''_pick'' (pickup_location r') = b"
    "before_first ''_drop'' (dropoff_location r') = a"
    "before_first ''_pick'' (pickup_location r) = a"
    "before_first ''_drop'' (dropoff_location r) = b"
    using assms(1,2) by (simp_all add: a_def b_def)
  have nz: "fare_lit (decimal 59160 2) \<noteq> zero_fare" "zero_fare \<noteq> fare_lit (decimal 59160 2)"
    "fare_lit (decimal 118320 2) \<noteq> zero_fare" "zero_fare \<noteq> fare_lit (decimal 118320 2)"
    "fare_lit (decimal 147900 2) \<noteq> zero_fare" "zero_fare \<noteq> fare_lit (decimal 147900 2)"
    "fare_lit (decimal 295800 2) \<noteq> zero_fare" "zero_fare \<noteq> fare_lit (decimal 295800 2)"
    "fare_lit (decimal 32895 2) \<noteq> zero_fare" "zero_fare \<noteq> fare_lit (decimal 32895 2)"
    "fare_lit (decimal 65790 2) \<noteq> zero_fare" "zero_fare \<noteq> fare_lit (decimal 65790 2)"
    "fare_lit (decimal 82238 2) \<noteq> zero_fare" "zero_fare \<noteq> fare_lit (decimal 82238 2)"
    "fare_lit (decimal 164475 2) \<noteq> zero_fare" "zero_fare \<noteq> fare_lit (decimal 164475 2)"
    "fare_lit (decimal 23460 2) \<noteq> zero_fare" "zero_fare \<noteq> fare_lit (decimal 23460 2)"
    "fare_lit (decimal 46920 2) \<noteq> zero_fare" "zero_fare \<noteq> fare_lit (decimal 46920 2)"
    "fare_lit (decimal 58650 2) \<noteq> zero_fare" "zero_fare \<noteq> fare_lit (decimal 58650 2)"
    "fare_lit (decimal 117300 2) \<noteq> zero_fare" "zero_fare \<noteq> fare_lit (decimal 117300 2)"
    using fare_lit_nonzero by simp_all
  have "a = ''lucban_terminal'' \<and> b = ''lucena_grand_terminal''
      \<or> a = ''lucban_terminal'' \<and> b = ''tayabas_city_public_market''
      \<or> a = ''tayabas_city_public_market'' \<and> b = ''lucena_grand_terminal''
      \<or> map_of distance_map (a, b) = None"
    by (simp add: distance_map_def)
  then show ?thesis
  proof (elim disjE conjE)
    assume "a = ''lucban_terminal''" "b = ''lucena_grand_terminal''"
    then show ?thesis
      unfolding fare_table Let_def keys assms(3,4)
      by (simp add: distance_map_def seat_map_def nz)
  next
    assume "a = ''lucban_terminal''" "b = ''tayabas_city_public_market''"
    then show ?thesis
      unfolding fare_table Let_def keys assms(3,4)
      by (simp add: distance_map_def seat_map_def nz)
  next
    assume "a = ''tayabas_city_public_market''" "b = ''lucena_grand_terminal''"
    then show ?thesis
      unfolding fare_table Let_def keys assms(3,4)
      by (simp add: distance_map_def seat_map_def nz)
  next
    assume none: "map_of distance_map (a, b) = None"
    then have na: "\<not> (a = ''lucban_terminal'' \<and> b = ''lucena_grand_terminal'')"
      "\<not> (a = ''lucban_terminal'' \<and> b = ''tayabas_city_public_market'')"
      "\<not> (a = ''tayabas_city_public_market'' \<and> b = ''lucena_grand_terminal'')"
      by (auto simp add: distance_map_def split: if_splits)
    have r: "fst (calculate_fare r) = zero_fare"
      unfolding fare_table Let_def keys using na by auto
    show ?thesis
      unfolding r unfolding fare_table Let_def keys assms(3,4) using none
      by (auto simp add: distance_map_def seat_map_def nz split: if_splits)
  qed
qed

text \<open>
  The amended claim C7 on the route from \<^verbatim>\<open>tayabas_city_public_market\<close> to
  \<^verbatim>\<open>lucena_grand_terminal\<close> and its exchange, \<^verbatim>\<open>Modernized PUV V1\<close>, round trip.
\<close>

theorem fare_exchange_iff_witness:
  "map_of distance_map (before_first ''_pick'' ''tayabas_city_public_market_pick'',
       before_first ''_drop'' ''lucena_grand_terminal_drop'') \<noteq> None
   \<and> map_of distance_map (before_first ''_pick'' ''lucena_grand_terminal_pick'',
       before_first ''_drop'' ''tayabas_city_public_market_drop'') = None
   \<and> fst (calculate_fare (sample_reservation\<lparr>pickup_location := ''lucena_grand_terminal_pick'',
          dropoff_location := ''tayabas_city_public_market_drop'',
          vehicle := ''Modernized PUV V1'', roundtrip := True\<rparr>)) = zero_fare
   \<and> fst (calculate_fare (sample_reservation\<lparr>pickup_location := ''lucena_grand_terminal_pick'',
          dropoff_location := ''tayabas_city_public_market_drop'',
          vehicle := ''Modernized PUV V1'', roundtrip := True\<rparr>))
     \<noteq> fst (calculate_fare (sample_reservation\<lparr>pickup_location := ''tayabas_city_public_market_pick'',
          dropoff_location := ''lucena_grand_terminal_drop'',
          vehicle := ''Modernized PUV V1'', roundtrip := True\<rparr>))"
  using fare_exchange_iff
    [of "sample_reservation\<lparr>pickup_location := ''lucena_grand_terminal_pick'',
          dropoff_location := ''tayabas_city_public_market_drop'',
          vehicle := ''Modernized PUV V1'', roundtrip := True\<rparr>"
        "sample_reservation\<lparr>pickup_location := ''tayabas_city_public_market_pick'',
          dropoff_location := ''lucena_grand_terminal_drop'',
          vehicle := ''Modernized PUV V1'', roundtrip := True\<rparr>"]
  by (auto simp add: before_first_codes distance_map_def seat_map_def)

end
